theory Spec2Isabelle
  imports Complex_Main "HOL-Library.AList"
begin

section \<open>The Chatwork API v2 client (src/main.ts)\<close>

text \<open>
  A shallow embedding of the parameter validation, parameter encoding, error classification,
  credential resolution and request building of \<^verbatim>\<open>ChatworkClient\<close>.

  Strings are byte strings: an ASCII character is one \<open>char\<close>, and the Japanese text of
  the error messages is written as its UTF-8 bytes. Objects (\<^verbatim>\<open>formData\<close>,
  \<^verbatim>\<open>queryParams\<close>) are association lists in insertion order, which is the order
  \<^verbatim>\<open>Object.entries\<close> enumerates string keys in. An asynchronous method becomes a function
  that returns the list of requests handed to the transport together with either the error the
  promise rejects with (\<open>Inl\<close>) or the value it resolves to (\<open>Inr\<close>). The advisory
  \<^verbatim>\<open>console\<close> output is not part of the model.
\<close>

subsection \<open>JavaScript values\<close>

text \<open>
  A number is NaN, an infinity or a finite value. Finite values are rationals, which include
  every finite double; the sign of zero is not kept (no operation below tells the two zeros
  apart).
\<close>

datatype jsnum = NaN | PosInf | NegInf | Fin rat

datatype jsval =
    Undefined
  | Null
  | Bool bool
  | Num jsnum
  | Str string
  | Arr "jsval list"
  | DateV "int option"    \<comment> \<open>the time value in milliseconds; \<open>None\<close> is an invalid date\<close>
  | BlobV string
  | Uint8ArrayV string

type_synonym obj = "(string \<times> jsval) list"

text \<open>Reading a property: an absent key reads as \<^verbatim>\<open>undefined\<close>.\<close>

definition getProp :: "obj \<Rightarrow> string \<Rightarrow> jsval" where
  "getProp ob k = (case map_of ob k of None \<Rightarrow> Undefined | Some v \<Rightarrow> v)"

text \<open>
  Assigning a property keeps the position of an existing key and appends a new one
  (\<open>AList.update\<close>); \<^verbatim>\<open>delete\<close> removes the key (\<open>AList.delete\<close>).
\<close>

definition assign :: "obj \<Rightarrow> string \<Rightarrow> jsval \<Rightarrow> obj" where
  "assign ob k v = AList.update k v ob"

definition delete_prop :: "obj \<Rightarrow> string \<Rightarrow> obj" where
  "delete_prop ob k = AList.delete k ob"

text \<open>\<^verbatim>\<open>!v\<close> is \<open>\<not> truthy v\<close>.\<close>

fun truthy :: "jsval \<Rightarrow> bool" where
  "truthy Undefined = False"
| "truthy Null = False"
| "truthy (Bool b) = b"
| "truthy (Num NaN) = False"
| "truthy (Num (Fin q)) = (q \<noteq> 0)"
| "truthy (Num PosInf) = True"
| "truthy (Num NegInf) = True"
| "truthy (Str s) = (s \<noteq> [])"
| "truthy (Arr xs) = True"
| "truthy (DateV d) = True"
| "truthy (BlobV b) = True"
| "truthy (Uint8ArrayV b) = True"

fun isDate :: "jsval \<Rightarrow> bool" where
  "isDate (DateV d) = True"
| "isDate v = False"

fun typeof :: "jsval \<Rightarrow> string" where
  "typeof Undefined = ''undefined''"
| "typeof (Bool b) = ''boolean''"
| "typeof (Num n) = ''number''"
| "typeof (Str s) = ''string''"
| "typeof v = ''object''"

subsection \<open>Decimal digits\<close>

definition digit :: "nat \<Rightarrow> char" where
  "digit d = ''0123456789'' ! d"

fun dec_nat :: "nat \<Rightarrow> string" where
  "dec_nat n = (if n < 10 then [digit n] else dec_nat (n div 10) @ [digit (n mod 10)])"

declare dec_nat.simps [simp del]

definition dec_int :: "int \<Rightarrow> string" where
  "dec_int i = (if i < 0 then CHR ''-'' # dec_nat (nat (- i)) else dec_nat (nat i))"

subsection \<open>What the host decides\<close>

text \<open>
  Five things depend on the JavaScript engine, its version of the Unicode standard, the locale
  or the time zone and are parameters: the text of a finite number that is not an integer of
  magnitude at most \<open>2\<^sup>5\<^sup>3\<close> (every such integer is a double, and
  \<^verbatim>\<open>Number.prototype.toString\<close> prints its decimal digits), the text of a
  \<^verbatim>\<open>Date\<close>, the time value \<^verbatim>\<open>Date.parse\<close> gives a string (\<open>None\<close> when it is
  not parseable), the offset in milliseconds between local time and UTC at a time value, and
  the lower-case form that the case mapping of the Unicode Character Database gives a string
  with characters outside ASCII.
\<close>

record host =
  numberToString :: "rat \<Rightarrow> string"
  dateToString :: "int option \<Rightarrow> string"
  dateParse :: "string \<Rightarrow> int option"
  localTZA :: "int \<Rightarrow> int"
  unicodeToLowerCase :: "string \<Rightarrow> string"

definition Number_toString :: "host \<Rightarrow> jsnum \<Rightarrow> string" where
  "Number_toString h n =
     (case n of
        NaN \<Rightarrow> ''NaN''
      | PosInf \<Rightarrow> ''Infinity''
      | NegInf \<Rightarrow> ''-Infinity''
      | Fin q \<Rightarrow>
          (if of_int \<lfloor>q\<rfloor> = q \<and> \<bar>q\<bar> \<le> 9007199254740992 then dec_int \<lfloor>q\<rfloor>
           else numberToString h q))"

fun intercalate :: "string \<Rightarrow> string list \<Rightarrow> string" where
  "intercalate sep [] = []"
| "intercalate sep [x] = x"
| "intercalate sep (x # y # ys) = x @ sep @ intercalate sep (y # ys)"

text \<open>
  \<^verbatim>\<open>String(v)\<close>, which is also what a template literal applies. An array prints as its
  elements joined with commas, where \<^verbatim>\<open>undefined\<close> and \<^verbatim>\<open>null\<close> elements print
  as the empty string; a typed array prints its bytes the same way.
\<close>

fun ToString :: "host \<Rightarrow> jsval \<Rightarrow> string" where
  "ToString h Undefined = ''undefined''"
| "ToString h Null = ''null''"
| "ToString h (Bool b) = (if b then ''true'' else ''false'')"
| "ToString h (Num n) = Number_toString h n"
| "ToString h (Str s) = s"
| "ToString h (Arr xs) =
     intercalate '',''
       (map (\<lambda>x. if x = Undefined \<or> x = Null then [] else ToString h x) xs)"
| "ToString h (DateV d) = dateToString h d"
| "ToString h (BlobV b) = ''[object Blob]''"
| "ToString h (Uint8ArrayV b) = intercalate '','' (map (\<lambda>c. dec_nat (of_char c)) b)"

text \<open>\<^verbatim>\<open>xs.join(",")\<close> on an array.\<close>

definition join_comma :: "host \<Rightarrow> jsval list \<Rightarrow> string" where
  "join_comma h xs =
     intercalate '','' (map (\<lambda>x. if x = Undefined \<or> x = Null then [] else ToString h x) xs)"

subsection \<open>String methods\<close>

text \<open>
  \<^verbatim>\<open>String.prototype.trim\<close> removes white space and line terminators from both ends:
  TAB, LF, VT, FF, CR, SP, and outside ASCII the no-break space U+00A0, U+1680, U+2000 to
  U+200A, the line and paragraph separators U+2028 and U+2029, U+202F, U+205F, the
  ideographic space U+3000 and the byte order mark U+FEFF. They are listed here as their
  UTF-8 bytes. Each of them starts with a byte that starts a character, so in a well-formed
  string a match at either end is that character.
\<close>

definition whiteSpace :: "string list" where
  "whiteSpace =
     [[CHR 0x09], [CHR 0x0A], [CHR 0x0B], [CHR 0x0C], [CHR 0x0D], [CHR 0x20],
      [CHR 0xC2, CHR 0xA0],
      [CHR 0xE1, CHR 0x9A, CHR 0x80],
      [CHR 0xE2, CHR 0x80, CHR 0x80], [CHR 0xE2, CHR 0x80, CHR 0x81],
      [CHR 0xE2, CHR 0x80, CHR 0x82], [CHR 0xE2, CHR 0x80, CHR 0x83],
      [CHR 0xE2, CHR 0x80, CHR 0x84], [CHR 0xE2, CHR 0x80, CHR 0x85],
      [CHR 0xE2, CHR 0x80, CHR 0x86], [CHR 0xE2, CHR 0x80, CHR 0x87],
      [CHR 0xE2, CHR 0x80, CHR 0x88], [CHR 0xE2, CHR 0x80, CHR 0x89],
      [CHR 0xE2, CHR 0x80, CHR 0x8A],
      [CHR 0xE2, CHR 0x80, CHR 0xA8], [CHR 0xE2, CHR 0x80, CHR 0xA9],
      [CHR 0xE2, CHR 0x80, CHR 0xAF],
      [CHR 0xE2, CHR 0x81, CHR 0x9F],
      [CHR 0xE3, CHR 0x80, CHR 0x80],
      [CHR 0xEF, CHR 0xBB, CHR 0xBF]]"

text \<open>The first of the given byte sequences that the string starts with.\<close>

definition leading :: "string list \<Rightarrow> string \<Rightarrow> string option" where
  "leading ws s = find (\<lambda>w. w \<noteq> [] \<and> take (length w) s = w) ws"

function dropLeading :: "string list \<Rightarrow> string \<Rightarrow> string" where
  "dropLeading ws s =
     (case leading ws s of None \<Rightarrow> s | Some w \<Rightarrow> dropLeading ws (drop (length w) s))"
  by pat_completeness auto
termination
proof (relation "measure (\<lambda>(ws, s). length s)")
  show "wf (measure (\<lambda>(ws, s). length s))" by simp
next
  fix ws :: "string list" and s w :: string
  assume "leading ws s = Some w"
  then have "w \<noteq> []" and "take (length w) s = w"
    by (auto simp: leading_def find_Some_iff)
  then have "s \<noteq> []" and "0 < length w" by auto
  then show "((ws, drop (length w) s), (ws, s)) \<in> measure (\<lambda>(ws, s). length s)"
    by simp
qed

declare dropLeading.simps [simp del]

definition trim :: "string \<Rightarrow> string" where
  "trim s = rev (dropLeading (map rev whiteSpace) (rev (dropLeading whiteSpace s)))"

text \<open>
  \<^verbatim>\<open>String.prototype.toLowerCase\<close>. On a string of ASCII characters it turns A to Z
  into a to z and keeps the rest. On any other string the result is the one of the Unicode
  case mapping, which is the host's.
\<close>

definition lowerChar :: "char \<Rightarrow> char" where
  "lowerChar c =
     (case map_of (zip ''ABCDEFGHIJKLMNOPQRSTUVWXYZ'' ''abcdefghijklmnopqrstuvwxyz'') c of
        Some l \<Rightarrow> l
      | None \<Rightarrow> c)"

definition toLowerCase :: "host \<Rightarrow> string \<Rightarrow> string" where
  "toLowerCase h s =
     (if list_all (\<lambda>c. (of_char c :: nat) < 128) s then map lowerChar s
      else unicodeToLowerCase h s)"

subsection \<open>The text of the messages\<close>

text \<open>The Japanese string literals of the source, as UTF-8 bytes.\<close>

definition label_message :: string where \<comment> \<open>the resource type of a message (katakana for \<open>message\<close>)\<close>
  "label_message = [
      CHR 0xE3, CHR 0x83, CHR 0xA1, CHR 0xE3, CHR 0x83, CHR 0x83, CHR 0xE3, CHR 0x82, CHR 0xBB,
      CHR 0xE3, CHR 0x83, CHR 0xBC, CHR 0xE3, CHR 0x82, CHR 0xB8]"

definition label_resource :: string where \<comment> \<open>the default resource type (katakana for \<open>resource\<close>)\<close>
  "label_resource = [
      CHR 0xE3, CHR 0x83, CHR 0xAA, CHR 0xE3, CHR 0x82, CHR 0xBD, CHR 0xE3, CHR 0x83, CHR 0xBC,
      CHR 0xE3, CHR 0x82, CHR 0xB9]"

definition msg_400 :: string where \<comment> \<open>parameters of the request or the access token are missing or invalid\<close>
  "msg_400 = [
      CHR 0xE3, CHR 0x83, CHR 0xAA, CHR 0xE3, CHR 0x82, CHR 0xAF, CHR 0xE3, CHR 0x82, CHR 0xA8,
      CHR 0xE3, CHR 0x82, CHR 0xB9, CHR 0xE3, CHR 0x83, CHR 0x88, CHR 0xE3, CHR 0x81, CHR 0xBE,
      CHR 0xE3, CHR 0x81, CHR 0x9F, CHR 0xE3, CHR 0x81, CHR 0xAF, CHR 0xE3, CHR 0x82, CHR 0xA2,
      CHR 0xE3, CHR 0x82, CHR 0xAF, CHR 0xE3, CHR 0x82, CHR 0xBB, CHR 0xE3, CHR 0x82, CHR 0xB9,
      CHR 0xE3, CHR 0x83, CHR 0x88, CHR 0xE3, CHR 0x83, CHR 0xBC, CHR 0xE3, CHR 0x82, CHR 0xAF,
      CHR 0xE3, CHR 0x83, CHR 0xB3, CHR 0xE3, CHR 0x81, CHR 0xAE, CHR 0xE3, CHR 0x83, CHR 0x91,
      CHR 0xE3, CHR 0x83, CHR 0xA9, CHR 0xE3, CHR 0x83, CHR 0xA1, CHR 0xE3, CHR 0x83, CHR 0xBC,
      CHR 0xE3, CHR 0x82, CHR 0xBF, CHR 0xE3, CHR 0x83, CHR 0xBC, CHR 0xE3, CHR 0x81, CHR 0x8C,
      CHR 0xE4, CHR 0xB8, CHR 0x8D, CHR 0xE8, CHR 0xB6, CHR 0xB3, CHR 0xE3, CHR 0x81, CHR 0x97,
      CHR 0xE3, CHR 0x81, CHR 0xA6, CHR 0xE3, CHR 0x81, CHR 0x84, CHR 0xE3, CHR 0x82, CHR 0x8B,
      CHR 0xE3, CHR 0x80, CHR 0x81, CHR 0xE3, CHR 0x81, CHR 0x8A, CHR 0xE3, CHR 0x82, CHR 0x88,
      CHR 0xE3, CHR 0x81, CHR 0xB3, CHR 0xE4, CHR 0xB8, CHR 0x8D, CHR 0xE6, CHR 0xAD, CHR 0xA3,
      CHR 0xE3, CHR 0x81, CHR 0xAA, CHR 0xE5, CHR 0x80, CHR 0xA4, CHR 0xE3, CHR 0x81, CHR 0x8C,
      CHR 0xE6, CHR 0x8C, CHR 0x87, CHR 0xE5, CHR 0xAE, CHR 0x9A, CHR 0xE3, CHR 0x81, CHR 0x95,
      CHR 0xE3, CHR 0x82, CHR 0x8C, CHR 0xE3, CHR 0x81, CHR 0xA6, CHR 0xE3, CHR 0x81, CHR 0x84,
      CHR 0xE3, CHR 0x82, CHR 0x8B]"

definition msg_401 :: string where \<comment> \<open>authentication failed\<close>
  "msg_401 = [
      CHR 0xE8, CHR 0xAA, CHR 0x8D, CHR 0xE8, CHR 0xA8, CHR 0xBC, CHR 0xE3, CHR 0x81, CHR 0xAB,
      CHR 0xE5, CHR 0xA4, CHR 0xB1, CHR 0xE6, CHR 0x95, CHR 0x97, CHR 0xE3, CHR 0x81, CHR 0x97,
      CHR 0xE3, CHR 0x81, CHR 0x9F]"

definition msg_403 :: string where \<comment> \<open>the scope of the access token is insufficient\<close>
  "msg_403 = [
      CHR 0xE3, CHR 0x82, CHR 0xA2, CHR 0xE3, CHR 0x82, CHR 0xAF, CHR 0xE3, CHR 0x82, CHR 0xBB,
      CHR 0xE3, CHR 0x82, CHR 0xB9, CHR 0xE3, CHR 0x83, CHR 0x88, CHR 0xE3, CHR 0x83, CHR 0xBC,
      CHR 0xE3, CHR 0x82, CHR 0xAF, CHR 0xE3, CHR 0x83, CHR 0xB3, CHR 0xE3, CHR 0x81, CHR 0xAE,
      CHR 0xE3, CHR 0x82, CHR 0xB9, CHR 0xE3, CHR 0x82, CHR 0xB3, CHR 0xE3, CHR 0x83, CHR 0xBC,
      CHR 0xE3, CHR 0x83, CHR 0x97, CHR 0xE3, CHR 0x81, CHR 0x8C, CHR 0xE4, CHR 0xB8, CHR 0x8D,
      CHR 0xE8, CHR 0xB6, CHR 0xB3, CHR 0xE3, CHR 0x81, CHR 0x97, CHR 0xE3, CHR 0x81, CHR 0xA6,
      CHR 0xE3, CHR 0x81, CHR 0x84, CHR 0xE3, CHR 0x82, CHR 0x8B]"

definition msg_404_suffix :: string where \<comment> \<open>\<open>does not exist\<close>, after the resource type\<close>
  "msg_404_suffix = [
      CHR 0xE3, CHR 0x81, CHR 0x8C, CHR 0xE5, CHR 0xAD, CHR 0x98, CHR 0xE5, CHR 0x9C, CHR 0xA8,
      CHR 0xE3, CHR 0x81, CHR 0x97, CHR 0xE3, CHR 0x81, CHR 0xAA, CHR 0xE3, CHR 0x81, CHR 0x84]"

definition msg_429 :: string where \<comment> \<open>the API usage limit was exceeded\<close>
  "msg_429 = [
      CHR 0x41, CHR 0x50, CHR 0x49, CHR 0xE3, CHR 0x81, CHR 0xAE, CHR 0xE5, CHR 0x88, CHR 0xA9,
      CHR 0xE7, CHR 0x94, CHR 0xA8, CHR 0xE5, CHR 0x9B, CHR 0x9E, CHR 0xE6, CHR 0x95, CHR 0xB0,
      CHR 0xE5, CHR 0x88, CHR 0xB6, CHR 0xE9, CHR 0x99, CHR 0x90, CHR 0xE3, CHR 0x82, CHR 0x92,
      CHR 0xE8, CHR 0xB6, CHR 0x85, CHR 0xE9, CHR 0x81, CHR 0x8E, CHR 0xE3, CHR 0x81, CHR 0x97,
      CHR 0xE3, CHR 0x81, CHR 0x9F]"

definition msg_unknown :: string where \<comment> \<open>unknown error\<close>
  "msg_unknown = [
      CHR 0xE4, CHR 0xB8, CHR 0x8D, CHR 0xE6, CHR 0x98, CHR 0x8E, CHR 0xE3, CHR 0x81, CHR 0xAA,
      CHR 0xE3, CHR 0x82, CHR 0xA8, CHR 0xE3, CHR 0x83, CHR 0xA9, CHR 0xE3, CHR 0x83, CHR 0xBC]"

definition missing_suffix :: string where \<comment> \<open>\<open>is a required parameter.\<close>, after the name\<close>
  "missing_suffix = [
      CHR 0x20, CHR 0xE3, CHR 0x81, CHR 0xAF, CHR 0xE5, CHR 0xBF, CHR 0x85, CHR 0xE9, CHR 0xA0,
      CHR 0x88, CHR 0xE3, CHR 0x83, CHR 0x91, CHR 0xE3, CHR 0x83, CHR 0xA9, CHR 0xE3, CHR 0x83,
      CHR 0xA1, CHR 0xE3, CHR 0x83, CHR 0xBC, CHR 0xE3, CHR 0x82, CHR 0xBF, CHR 0xE3, CHR 0x81,
      CHR 0xA7, CHR 0xE3, CHR 0x81, CHR 0x99, CHR 0xE3, CHR 0x80, CHR 0x82]"

definition invalid_is :: string where \<comment> \<open>between the name and the value\<close>
  "invalid_is = [
      CHR 0x20, CHR 0xE3, CHR 0x81, CHR 0x8C, CHR 0x20]"

definition invalid_but :: string where \<comment> \<open>between the value and the expected values\<close>
  "invalid_but = [
      CHR 0x20, CHR 0xE3, CHR 0x81, CHR 0xA8, CHR 0xE3, CHR 0x81, CHR 0xAA, CHR 0xE3, CHR 0x81,
      CHR 0xA3, CHR 0xE3, CHR 0x81, CHR 0xA6, CHR 0xE3, CHR 0x81, CHR 0x84, CHR 0xE3, CHR 0x82,
      CHR 0x8B, CHR 0xE3, CHR 0x81, CHR 0x8C, CHR 0xE3, CHR 0x80, CHR 0x81, CHR 0x20]"

definition invalid_should :: string where \<comment> \<open>after the expected values\<close>
  "invalid_should = [
      CHR 0x20, CHR 0xE3, CHR 0x81, CHR 0xA8, CHR 0xE3, CHR 0x81, CHR 0x99, CHR 0xE3, CHR 0x81,
      CHR 0xB9, CHR 0xE3, CHR 0x81, CHR 0x8D, CHR 0xE3, CHR 0x81, CHR 0xA7, CHR 0xE3, CHR 0x81,
      CHR 0x82, CHR 0xE3, CHR 0x82, CHR 0x8B, CHR 0xE3, CHR 0x80, CHR 0x82]"

definition expected_Date :: string where \<comment> \<open>\<open>Date object\<close>\<close>
  "expected_Date = [
      CHR 0x44, CHR 0x61, CHR 0x74, CHR 0x65, CHR 0xE3, CHR 0x82, CHR 0xAA, CHR 0xE3, CHR 0x83,
      CHR 0x96, CHR 0xE3, CHR 0x82, CHR 0xB8, CHR 0xE3, CHR 0x82, CHR 0xA7, CHR 0xE3, CHR 0x82,
      CHR 0xAF, CHR 0xE3, CHR 0x83, CHR 0x88]"

definition or_word :: string where \<comment> \<open>\<open>or\<close>, with a space on each side\<close>
  "or_word = [
      CHR 0x20, CHR 0xE3, CHR 0x81, CHR 0xBE, CHR 0xE3, CHR 0x81, CHR 0x9F, CHR 0xE3, CHR 0x81,
      CHR 0xAF, CHR 0x20]"

text \<open>
  The message of the error of \<^verbatim>\<open>create\<close>: to initialise a new ChatworkClient, pass a
  Chatwork API token or define the environment variable CW_API_TOKEN.
\<close>

definition msg_no_token :: string where
  "msg_no_token = [
      CHR 0xE6, CHR 0x96, CHR 0xB0, CHR 0xE3, CHR 0x81, CHR 0x97, CHR 0xE3, CHR 0x81, CHR 0x84,
      CHR 0x43, CHR 0x68, CHR 0x61, CHR 0x74, CHR 0x77, CHR 0x6F, CHR 0x72, CHR 0x6B, CHR 0x43,
      CHR 0x6C, CHR 0x69, CHR 0x65, CHR 0x6E, CHR 0x74, CHR 0xE3, CHR 0x82, CHR 0x92, CHR 0xE5,
      CHR 0x88, CHR 0x9D, CHR 0xE6, CHR 0x9C, CHR 0x9F, CHR 0xE5, CHR 0x8C, CHR 0x96, CHR 0xE3,
      CHR 0x81, CHR 0x99, CHR 0xE3, CHR 0x82, CHR 0x8B, CHR 0xE3, CHR 0x81, CHR 0xA8, CHR 0xE3,
      CHR 0x81, CHR 0x8D, CHR 0xE3, CHR 0x81, CHR 0xAF, CHR 0xE3, CHR 0x80, CHR 0x81, CHR 0x43,
      CHR 0x68, CHR 0x61, CHR 0x74, CHR 0x77, CHR 0x6F, CHR 0x72, CHR 0x6B, CHR 0x20, CHR 0x41,
      CHR 0x50, CHR 0x49, CHR 0xE3, CHR 0x83, CHR 0x88, CHR 0xE3, CHR 0x83, CHR 0xBC, CHR 0xE3,
      CHR 0x82, CHR 0xAF, CHR 0xE3, CHR 0x83, CHR 0xB3, CHR 0xE3, CHR 0x82, CHR 0x92, CHR 0xE6,
      CHR 0xB8, CHR 0xA1, CHR 0xE3, CHR 0x81, CHR 0x99, CHR 0xE3, CHR 0x81, CHR 0x8B, CHR 0xE3,
      CHR 0x80, CHR 0x81, CHR 0x43, CHR 0x57, CHR 0x5F, CHR 0x41, CHR 0x50, CHR 0x49, CHR 0x5F,
      CHR 0x54, CHR 0x4F, CHR 0x4B, CHR 0x45, CHR 0x4E, CHR 0xE7, CHR 0x92, CHR 0xB0, CHR 0xE5,
      CHR 0xA2, CHR 0x83, CHR 0xE5, CHR 0xA4, CHR 0x89, CHR 0xE6, CHR 0x95, CHR 0xB0, CHR 0xE3,
      CHR 0x82, CHR 0x92, CHR 0xE5, CHR 0xAE, CHR 0x9A, CHR 0xE7, CHR 0xBE, CHR 0xA9, CHR 0xE3,
      CHR 0x81, CHR 0x99, CHR 0xE3, CHR 0x82, CHR 0x8B, CHR 0xE5, CHR 0xBF, CHR 0x85, CHR 0xE8,
      CHR 0xA6, CHR 0x81, CHR 0xE3, CHR 0x81, CHR 0x8C, CHR 0xE3, CHR 0x81, CHR 0x82, CHR 0xE3,
      CHR 0x82, CHR 0x8A, CHR 0xE3, CHR 0x81, CHR 0xBE, CHR 0xE3, CHR 0x81, CHR 0x99, CHR 0xE3,
      CHR 0x80, CHR 0x82]"

subsection \<open>Errors\<close>

text \<open>
  Every error the code throws is a value. \<open>PlainError\<close> is a bare \<^verbatim>\<open>Error\<close> with its
  message, \<open>Chatwork\<close> carries the name and the message that the constructor of
  \<^verbatim>\<open>ChatworkError\<close> sets, \<open>TypeError\<close> is what the engine throws when a method is called
  on a value that has none of that name, \<open>PermissionDenied\<close> is what the runtime throws when an
  access is refused, and \<open>TransportError\<close> is whatever the transport itself rejects with.
\<close>

datatype error =
    PlainError string
  | MissingParameter string
  | InvalidParameter string
  | Chatwork string string
  | TypeError
  | PermissionDenied
  | TransportError string

definition MissingParameterError :: "string \<Rightarrow> error" where
  "MissingParameterError missingParam = MissingParameter (missingParam @ missing_suffix)"

definition InvalidParameterError :: "string \<Rightarrow> string \<Rightarrow> string \<Rightarrow> error" where
  "InvalidParameterError invalidParam paramVal expectedParamVal =
     InvalidParameter
       (invalidParam @ invalid_is @ paramVal @ invalid_but @ expectedParamVal @ invalid_should)"

text \<open>
  The constructor of \<^verbatim>\<open>ChatworkError\<close>: a \<^verbatim>\<open>switch\<close> on the status code. The
  resource type is optional, \<open>None\<close> is a call with one argument and takes the default.
\<close>

definition ChatworkError :: "nat \<Rightarrow> string option \<Rightarrow> error" where
  "ChatworkError statusCode resourceType =
     (let rt = (case resourceType of None \<Rightarrow> label_resource | Some l \<Rightarrow> l) in
      if statusCode = 400 then Chatwork ''IncorrectParametersError'' msg_400
      else if statusCode = 401 then Chatwork ''UnauthorizedError'' msg_401
      else if statusCode = 403 then Chatwork ''ForbiddenError'' msg_403
      else if statusCode = 404 then Chatwork ''NotFoundError'' (rt @ msg_404_suffix)
      else if statusCode = 429 then Chatwork ''RateLimitError'' msg_429
      else Chatwork (''UnknownChatworkError '' @ dec_nat statusCode) msg_unknown)"

subsection \<open>Validation of the enumerated strings\<close>

text \<open>
  The regular expressions \<^verbatim>\<open>/^(open|done)$/\<close> and \<^verbatim>\<open>/^(none|date|time)$/\<close> have no
  flags, so they match exactly the listed words; \<^verbatim>\<open>test\<close> converts its argument to a
  string first.
\<close>

definition isValidTaskStatus :: "host \<Rightarrow> jsval \<Rightarrow> bool" where
  "isValidTaskStatus h taskStatus =
     (if \<not> truthy taskStatus then False
      else ToString h taskStatus \<in> set [''open'', ''done''])"

definition isValidLimitType :: "host \<Rightarrow> jsval \<Rightarrow> bool" where
  "isValidLimitType h taskLimitType =
     (if \<not> truthy taskLimitType then False
      else ToString h taskLimitType \<in> set [''none'', ''date'', ''time''])"

subsection \<open>Query strings and form bodies\<close>

text \<open>
  \<^verbatim>\<open>queryStringFromParamsObject\<close>: the loop over the entries skips \<^verbatim>\<open>undefined\<close> and
  \<^verbatim>\<open>null\<close> values and collects \<^verbatim>\<open>key=value\<close>. \<open>None\<close> is a call without an object.
\<close>

fun definedParams :: "host \<Rightarrow> obj \<Rightarrow> string list" where
  "definedParams h [] = []"
| "definedParams h ((key, val) # rest) =
     (if val = Undefined \<or> val = Null then definedParams h rest
      else (key @ ''='' @ ToString h val) # definedParams h rest)"

definition queryStringFromParamsObject :: "host \<Rightarrow> obj option \<Rightarrow> string" where
  "queryStringFromParamsObject h queryParams =
     (case queryParams of
        None \<Rightarrow> []
      | Some qp \<Rightarrow>
          (if length (definedParams h qp) > 0
           then ''?'' @ intercalate ''&'' (definedParams h qp)
           else []))"

definition entryValuesAsStrings :: "host \<Rightarrow> string \<times> jsval \<Rightarrow> string \<times> string" where
  "entryValuesAsStrings h e =
     (case e of (key, val) \<Rightarrow>
        (key, case val of Arr xs \<Rightarrow> join_comma h xs | _ \<Rightarrow> ToString h val))"

text \<open>
  The step \<^verbatim>\<open>if (Array.isArray(formData.k)) { formData.k = formData.k.join(","); }\<close>
  that the methods with list-valued fields apply to each such field.
\<close>

definition joinIfArray :: "host \<Rightarrow> obj \<Rightarrow> string \<Rightarrow> obj" where
  "joinIfArray h formData k =
     (case getProp formData k of
        Arr xs \<Rightarrow> assign formData k (Str (join_comma h xs))
      | _ \<Rightarrow> formData)"

text \<open>
  How a \<^verbatim>\<open>URLSearchParams\<close> body is written on the wire (the
  \<^verbatim>\<open>application/x-www-form-urlencoded\<close> serializer): letters, digits and \<^verbatim>\<open>*-._\<close>
  stay, a space becomes \<^verbatim>\<open>+\<close>, every other byte becomes \<^verbatim>\<open>%XX\<close>.
\<close>

definition hexDigit :: "nat \<Rightarrow> char" where
  "hexDigit n = ''0123456789ABCDEF'' ! n"

definition formByte :: "char \<Rightarrow> string" where
  "formByte c =
     (let n = (of_char c :: nat) in
      if (48 \<le> n \<and> n \<le> 57) \<or> (65 \<le> n \<and> n \<le> 90) \<or> (97 \<le> n \<and> n \<le> 122)
         \<or> n = 42 \<or> n = 45 \<or> n = 46 \<or> n = 95 then [c]
      else if n = 32 then ''+''
      else [CHR ''%'', hexDigit (n div 16), hexDigit (n mod 16)])"

definition formEncode :: "string \<Rightarrow> string" where
  "formEncode s = concat (map formByte s)"

definition URLSearchParams_toString :: "(string \<times> string) list \<Rightarrow> string" where
  "URLSearchParams_toString ps =
     intercalate ''&'' (map (\<lambda>(k, v). formEncode k @ ''='' @ formEncode v) ps)"

subsection \<open>Requests, responses and the client\<close>

datatype formDataValue = FieldString string | FieldBlob string

datatype body =
    UrlEncoded "(string \<times> string) list"       \<comment> \<open>a \<^verbatim>\<open>URLSearchParams\<close>\<close>
  | Multipart "(string \<times> formDataValue) list"   \<comment> \<open>a \<^verbatim>\<open>FormData\<close>\<close>

text \<open>
  The two arguments of a call of the transport. \<open>http_method\<close> is the key
  \<^verbatim>\<open>method\<close>; it and \<open>body\<close> are \<open>None\<close> where the options object has no such key.
\<close>

record request =
  url :: string
  http_method :: "string option"
  headers :: "(string \<times> string) list"
  body :: "body option"

record 'j response =
  ok :: bool
  status :: nat
  json :: "error + 'j"

record 'j client =
  token :: string
  fetchImpl :: "request \<Rightarrow> error + 'j response"

definition apiV2Endpoint :: string where
  "apiV2Endpoint = ''https://api.chatwork.com/v2''"

definition DefaultHeaders :: "'j client \<Rightarrow> (string \<times> string) list" where
  "DefaultHeaders c = [(''accept'', ''application/json''), (''x-chatworktoken'', token c)]"

definition FormDataHeaders :: "'j client \<Rightarrow> (string \<times> string) list" where
  "FormDataHeaders c =
     DefaultHeaders c @ [(''content-type'', ''application/x-www-form-urlencoded'')]"

text \<open>
  The tail every method ends with: one call of the transport, then
  \<^verbatim>\<open>if (!res.ok) throw new ChatworkError(res.status, label)\<close> and
  \<^verbatim>\<open>return await res.json()\<close>. The first component is the list of requests issued.
\<close>

definition send :: "'j client \<Rightarrow> request \<Rightarrow> string option \<Rightarrow> request list \<times> (error + 'j)" where
  "send c req label =
     ([req],
      case fetchImpl c req of
        Inl e \<Rightarrow> Inl e
      | Inr res \<Rightarrow> if \<not> ok res then Inl (ChatworkError (status res) label) else json res)"

text \<open>A method that throws before it reaches the transport.\<close>

definition throw :: "error \<Rightarrow> request list \<times> (error + 'a)" where
  "throw e = ([], Inl e)"

subsection \<open>Dates\<close>

text \<open>
  \<^verbatim>\<open>new Date(v)\<close> for a number clips it to a time value in milliseconds (\<open>TimeClip\<close>:
  not finite or beyond \<open>8.64 \<times> 10\<^sup>1\<^sup>5\<close> is invalid, otherwise the fraction is cut off);
  for a string it clips what \<^verbatim>\<open>Date.parse\<close> gives. The getters read local time and give
  NaN (\<open>None\<close>) on an invalid date.
\<close>

definition TimeClip :: "jsnum \<Rightarrow> int option" where
  "TimeClip n =
     (case n of
        Fin q \<Rightarrow>
          (if \<bar>q\<bar> > 8640000000000000 then None
           else Some (if q \<ge> 0 then \<lfloor>q\<rfloor> else \<lceil>q\<rceil>))
      | _ \<Rightarrow> None)"

definition Date_of_number :: "jsnum \<Rightarrow> jsval" where
  "Date_of_number n = DateV (TimeClip n)"

definition Date_of_string :: "host \<Rightarrow> string \<Rightarrow> jsval" where
  "Date_of_string h s =
     DateV (case dateParse h s of None \<Rightarrow> None | Some t \<Rightarrow> TimeClip (Fin (of_int t)))"

definition LocalTime :: "host \<Rightarrow> int \<Rightarrow> int" where
  "LocalTime h t = t + localTZA h t"

definition getHours :: "host \<Rightarrow> int option \<Rightarrow> int option" where
  "getHours h d = map_option (\<lambda>t. (LocalTime h t div 3600000) mod 24) d"

definition getMinutes :: "host \<Rightarrow> int option \<Rightarrow> int option" where
  "getMinutes h d = map_option (\<lambda>t. (LocalTime h t div 60000) mod 60) d"

definition getSeconds :: "host \<Rightarrow> int option \<Rightarrow> int option" where
  "getSeconds h d = map_option (\<lambda>t. (LocalTime h t div 1000) mod 60) d"

text \<open>
  \<^verbatim>\<open>Math.floor(d.getTime() / 1000).toString()\<close>. A time value is an integer of magnitude
  at most \<open>8.64 \<times> 10\<^sup>1\<^sup>5\<close>, where the double quotient by 1000 is closer to the exact
  quotient than the distance \<open>1/1000\<close> that separates a non-integer quotient from the next
  integer, so the floor is the integer quotient.
\<close>

definition epochSeconds :: "int option \<Rightarrow> string" where
  "epochSeconds d = (case d of None \<Rightarrow> ''NaN'' | Some t \<Rightarrow> dec_int (t div 1000))"

text \<open>
  \<^verbatim>\<open>v.trim().toLowerCase()\<close>: only a string has the method \<^verbatim>\<open>trim\<close>.
\<close>

definition trim_toLowerCase :: "host \<Rightarrow> jsval \<Rightarrow> error + jsval" where
  "trim_toLowerCase h v =
     (case v of Str s \<Rightarrow> Inr (Str (toLowerCase h (trim s))) | _ \<Rightarrow> Inl TypeError)"

subsection \<open>Construction of the client\<close>

text \<open>
  What \<^verbatim>\<open>create\<close> reads from its surroundings: whether the runtime grants access to
  the environment variable and to the file, the environment variables, the parsed
  \<^verbatim>\<open>.env\<close> file of the working directory (\<open>None\<close> when there is none), and the global
  \<^verbatim>\<open>fetch\<close>. \<^verbatim>\<open>loadSync\<close> belongs to the library \<^verbatim>\<open>@std/dotenv\<close>: it gives the
  entries of the file, and no entry when the file does not exist.
\<close>

record 'j environment =
  envAccess :: bool
  envVars :: "string \<Rightarrow> string option"
  readAccess :: bool
  dotenvFile :: "(string \<Rightarrow> string option) option"
  fetch :: "request \<Rightarrow> error + 'j response"

definition loadSync :: "'j environment \<Rightarrow> string \<Rightarrow> string option" where
  "loadSync env = (case dotenvFile env of None \<Rightarrow> (\<lambda>k. None) | Some m \<Rightarrow> m)"

text \<open>The options of \<^verbatim>\<open>create\<close>; a token that is \<open>None\<close> is \<^verbatim>\<open>undefined\<close>.\<close>

record 'j ChatworkClientOptions =
  options_token :: "string option"
  options_fetchImpl :: "request \<Rightarrow> error + 'j response"

text \<open>A string that is not \<^verbatim>\<open>undefined\<close> and not empty, that is, one that is not falsy.\<close>

definition nonEmpty :: "string option \<Rightarrow> string option" where
  "nonEmpty s = (case s of Some (x # xs) \<Rightarrow> Some (x # xs) | _ \<Rightarrow> None)"

text \<open>
  \<^verbatim>\<open>create\<close>. \<^verbatim>\<open>Deno.env.get\<close> and the read of the file throw when the runtime
  refuses the access. No branch calls the transport.
\<close>

definition create ::
  "'j environment \<Rightarrow> 'j ChatworkClientOptions option \<Rightarrow> request list \<times> (error + 'j client)" where
  "create env opts =
     (let options =
            (case opts of
               None \<Rightarrow> \<lparr>options_token = Some [], options_fetchImpl = fetch env\<rparr>
             | Some given \<Rightarrow> given)
      in
      case nonEmpty (options_token options) of
        Some tok \<Rightarrow> ([], Inr \<lparr>token = tok, fetchImpl = options_fetchImpl options\<rparr>)
      | None \<Rightarrow>
          if \<not> envAccess env then throw PermissionDenied
          else
            (case nonEmpty (envVars env ''CW_API_TOKEN'') of
               Some envToken \<Rightarrow>
                 ([], Inr \<lparr>token = envToken, fetchImpl = options_fetchImpl options\<rparr>)
             | None \<Rightarrow>
                 if \<not> readAccess env then throw PermissionDenied
                 else
                   (case nonEmpty (loadSync env ''CW_API_TOKEN'') of
                      Some envToken \<Rightarrow>
                        ([], Inr \<lparr>token = envToken, fetchImpl = options_fetchImpl options\<rparr>)
                    | None \<Rightarrow> throw (PlainError msg_no_token))))"

subsection \<open>The methods\<close>

definition postRooms :: "host \<Rightarrow> 'j client \<Rightarrow> obj \<Rightarrow> request list \<times> (error + 'j)" where
  "postRooms h c formData =
     (if \<not> truthy (getProp formData ''name'') then throw (MissingParameterError ''formData.name'')
      else if \<not> truthy (getProp formData ''members_admin_ids'')
        then throw (MissingParameterError ''formData.members_admin_ids'')
      else
        let formData = joinIfArray h formData ''members_admin_ids'';
            formData = joinIfArray h formData ''members_member_ids'';
            formData = joinIfArray h formData ''members_readonly_ids'';
            formParams = map (entryValuesAsStrings h) formData
        in send c \<lparr>url = apiV2Endpoint @ ''/rooms'', http_method = Some ''post'',
                    headers = FormDataHeaders c, body = Some (UrlEncoded formParams)\<rparr> None)"

definition putRoomMembers ::
  "host \<Rightarrow> 'j client \<Rightarrow> jsval \<Rightarrow> obj \<Rightarrow> request list \<times> (error + 'j)" where
  "putRoomMembers h c roomId formData =
     (if \<not> truthy roomId then throw (MissingParameterError ''roomId'')
      else if \<not> truthy (getProp formData ''members_admin_ids'')
        then throw (MissingParameterError ''formData.members_admin_ids'')
      else
        let formData = joinIfArray h formData ''members_admin_ids'';
            formData = joinIfArray h formData ''members_member_ids'';
            formData = joinIfArray h formData ''members_readonly_ids'';
            formParams = map (entryValuesAsStrings h) formData
        in send c \<lparr>url = apiV2Endpoint @ ''/rooms/'' @ ToString h roomId @ ''/members'',
                    http_method = Some ''put'', headers = FormDataHeaders c,
                    body = Some (UrlEncoded formParams)\<rparr> None)"

definition getRoomMessages ::
  "host \<Rightarrow> 'j client \<Rightarrow> jsval \<Rightarrow> obj \<Rightarrow> request list \<times> (error + 'j)" where
  "getRoomMessages h c roomId queryParams =
     (if \<not> truthy roomId then throw (MissingParameterError ''roomId'')
      else
        let queryParams = assign queryParams ''force''
                            (Str (if truthy (getProp queryParams ''force'') then ''1'' else ''0''));
            queryString = queryStringFromParamsObject h (Some queryParams)
        in send c \<lparr>url = apiV2Endpoint @ ''/rooms/'' @ ToString h roomId @ ''/messages''
                            @ queryString,
                    http_method = None, headers = DefaultHeaders c, body = None\<rparr> None)"

definition postRoomMessage ::
  "host \<Rightarrow> 'j client \<Rightarrow> jsval \<Rightarrow> obj \<Rightarrow> request list \<times> (error + 'j)" where
  "postRoomMessage h c roomId formData =
     (if \<not> truthy roomId then throw (MissingParameterError ''roomId'')
      else if \<not> truthy (getProp formData ''body'')
        then throw (MissingParameterError ''formData.body'')
      else
        let formData = assign formData ''self_unread''
                         (Str (if truthy (getProp formData ''self_unread'') then ''1'' else ''0''));
            formParams = map (entryValuesAsStrings h) formData
        in send c \<lparr>url = apiV2Endpoint @ ''/rooms/'' @ ToString h roomId @ ''/messages'',
                    http_method = Some ''post'', headers = FormDataHeaders c,
                    body = Some (UrlEncoded formParams)\<rparr> None)"

definition putRoomMessagesRead ::
  "host \<Rightarrow> 'j client \<Rightarrow> jsval \<Rightarrow> obj \<Rightarrow> request list \<times> (error + 'j)" where
  "putRoomMessagesRead h c roomId formData =
     (if \<not> truthy roomId then throw (MissingParameterError ''roomId'')
      else
        let formParams = map (entryValuesAsStrings h) formData
        in send c \<lparr>url = apiV2Endpoint @ ''/rooms/'' @ ToString h roomId @ ''/messages/read'',
                    http_method = Some ''put'', headers = FormDataHeaders c,
                    body = Some (UrlEncoded formParams)\<rparr> (Some label_message))"

definition putRoomMessagesUnread ::
  "host \<Rightarrow> 'j client \<Rightarrow> jsval \<Rightarrow> obj \<Rightarrow> request list \<times> (error + 'j)" where
  "putRoomMessagesUnread h c roomId formData =
     (if \<not> truthy roomId then throw (MissingParameterError ''roomId'')
      else if \<not> truthy (getProp formData ''message_id'')
        then throw (MissingParameterError ''formData.message_id'')
      else
        let formParams = map (entryValuesAsStrings h) formData
        in send c \<lparr>url = apiV2Endpoint @ ''/rooms/'' @ ToString h roomId @ ''/messages/unread'',
                    http_method = Some ''put'', headers = FormDataHeaders c,
                    body = Some (UrlEncoded formParams)\<rparr> (Some label_message))"

text \<open>
  \<^verbatim>\<open>getRoomTasks\<close>. \<^verbatim>\<open>queryParams.status?.trim().toLowerCase()\<close> gives
  \<^verbatim>\<open>undefined\<close> for \<^verbatim>\<open>undefined\<close> and \<^verbatim>\<open>null\<close> and throws for any other value
  that is not a string.
\<close>

definition getRoomTasks ::
  "host \<Rightarrow> 'j client \<Rightarrow> jsval \<Rightarrow> obj \<Rightarrow> request list \<times> (error + 'j)" where
  "getRoomTasks h c roomId queryParams =
     (if \<not> truthy roomId then throw (MissingParameterError ''roomId'')
      else
        case (if getProp queryParams ''status'' = Undefined \<or> getProp queryParams ''status'' = Null
              then Inr Undefined
              else trim_toLowerCase h (getProp queryParams ''status'')) of
          Inl e \<Rightarrow> throw e
        | Inr st \<Rightarrow>
            let queryParams = assign queryParams ''status'' st;
                queryParams = (if \<not> isValidTaskStatus h (getProp queryParams ''status'')
                               then delete_prop queryParams ''status'' else queryParams);
                queryString = queryStringFromParamsObject h (Some queryParams)
            in send c \<lparr>url = apiV2Endpoint @ ''/rooms/'' @ ToString h roomId @ ''/tasks''
                                @ queryString,
                        http_method = None, headers = DefaultHeaders c, body = None\<rparr> None)"

text \<open>
  \<^verbatim>\<open>postRoomTasks\<close>, in the order of the source: the three required values, the limit
  made a \<^verbatim>\<open>Date\<close>, the limit type inferred or normalised, its validation, the assignees
  joined, the limit turned into seconds, the request.
\<close>

definition expected_limit_type :: string where
  "expected_limit_type = ''\"none\"'' @ or_word @ ''\"date\"'' @ or_word @ ''\"time\"''"

definition limitAsDate :: "host \<Rightarrow> obj \<Rightarrow> error + obj" where
  "limitAsDate h formData =
     (let limit = getProp formData ''limit'' in
      if truthy limit \<and> \<not> isDate limit then
        (let formData =
               (case limit of
                  Str s \<Rightarrow> assign formData ''limit'' (Date_of_string h s)
                | Num n \<Rightarrow> assign formData ''limit'' (Date_of_number n)
                | _ \<Rightarrow> formData)
         in
         if \<not> isDate (getProp formData ''limit'')
         then Inl (InvalidParameterError ''formData.limit''
                     (typeof (getProp formData ''limit'')) expected_Date)
         else Inr formData)
      else Inr formData)"

definition limitTypeDefault :: "host \<Rightarrow> obj \<Rightarrow> error + obj" where
  "limitTypeDefault h formData =
     (if \<not> truthy (getProp formData ''limit_type'') then
        (if \<not> truthy (getProp formData ''limit'') then
           Inr (assign formData ''limit_type'' (Str ''none''))
         else
           case getProp formData ''limit'' of
             DateV d \<Rightarrow>
               if getSeconds h d = Some 0 \<and> getMinutes h d = Some 0 \<and> getHours h d = Some 0
               then Inr (assign formData ''limit_type'' (Str ''date''))
               else Inr (assign formData ''limit_type'' (Str ''time''))
           | _ \<Rightarrow> Inl TypeError)
      else
        case trim_toLowerCase h (getProp formData ''limit_type'') of
          Inl e \<Rightarrow> Inl e
        | Inr lt \<Rightarrow> Inr (assign formData ''limit_type'' lt))"

definition limitAsSeconds :: "obj \<Rightarrow> error + obj" where
  "limitAsSeconds formData =
     (if truthy (getProp formData ''limit'') then
        (case getProp formData ''limit'' of
           DateV d \<Rightarrow> Inr (assign formData ''limit'' (Str (epochSeconds d)))
         | _ \<Rightarrow> Inl TypeError)
      else Inr formData)"

definition postRoomTasks ::
  "host \<Rightarrow> 'j client \<Rightarrow> jsval \<Rightarrow> obj \<Rightarrow> request list \<times> (error + 'j)" where
  "postRoomTasks h c roomId formData =
     (if \<not> truthy roomId then throw (MissingParameterError ''roomId'')
      else if \<not> truthy (getProp formData ''body'')
        then throw (MissingParameterError ''formData.body'')
      else if \<not> truthy (getProp formData ''to_ids'')
        then throw (MissingParameterError ''formData.to_ids'')
      else
        (case limitAsDate h formData of
           Inl e \<Rightarrow> throw e
         | Inr formData \<Rightarrow>
             (case limitTypeDefault h formData of
                Inl e \<Rightarrow> throw e
              | Inr formData \<Rightarrow>
                  if \<not> isValidLimitType h (getProp formData ''limit_type'')
                  then throw (InvalidParameterError ''formData.limit_type''
                                (ToString h (getProp formData ''limit_type''))
                                expected_limit_type)
                  else
                    (case limitAsSeconds (joinIfArray h formData ''to_ids'') of
                       Inl e \<Rightarrow> throw e
                     | Inr formData \<Rightarrow>
                         send c
                           \<lparr>url = apiV2Endpoint @ ''/rooms/'' @ ToString h roomId @ ''/tasks'',
                            http_method = Some ''post'', headers = FormDataHeaders c,
                            body = Some (UrlEncoded (map (entryValuesAsStrings h) formData))\<rparr>
                           None))))"

text \<open>
  \<^verbatim>\<open>postRoomFiles\<close>. \<^verbatim>\<open>FormData.append\<close> stores a blob as it is and the string
  form of any other value; a \<^verbatim>\<open>Uint8Array\<close> is wrapped into a blob first.
\<close>

definition postRoomFiles ::
  "host \<Rightarrow> 'j client \<Rightarrow> jsval \<Rightarrow> obj \<Rightarrow> request list \<times> (error + 'j)" where
  "postRoomFiles h c roomId formData =
     (if \<not> truthy roomId then throw (MissingParameterError ''roomId'')
      else if \<not> truthy (getProp formData ''file'')
        then throw (MissingParameterError ''formData.file'')
      else
        let blob = (case getProp formData ''file'' of
                      Uint8ArrayV bytes \<Rightarrow> BlobV bytes
                    | file \<Rightarrow> file);
            formParams =
              [(''message'', FieldString (ToString h (getProp formData ''message''))),
               (''file'', case blob of BlobV bytes \<Rightarrow> FieldBlob bytes
                                    | v \<Rightarrow> FieldString (ToString h v))]
        in send c \<lparr>url = apiV2Endpoint @ ''/rooms/'' @ ToString h roomId @ ''/files'',
                    http_method = Some ''post'', headers = FormDataHeaders c,
                    body = Some (Multipart formParams)\<rparr> None)"

subsection \<open>Reading what a method sent\<close>

text \<open>
  The value of a form field in the one request a method issued; \<open>None\<close> when it issued no
  request, or one without a url-encoded body, or one without that field.
\<close>

definition sentField :: "request list \<times> 'a \<Rightarrow> string \<Rightarrow> string option" where
  "sentField r k =
     (case fst r of
        [req] \<Rightarrow> (case body req of Some (UrlEncoded ps) \<Rightarrow> map_of ps k | _ \<Rightarrow> None)
      | _ \<Rightarrow> None)"

subsection \<open>A host, a transport and an environment to run the methods on\<close>


definition ideographic_Done :: string where \<comment> \<open>U+3000, then \<^verbatim>\<open>Done\<close>, then U+00A0\<close>
  "ideographic_Done = [CHR 0xE3, CHR 0x80, CHR 0x80] @ ''Done'' @ [CHR 0xC2, CHR 0xA0]"

definition capital_umlaut_date :: string where \<comment> \<open>D, U+00C4, T, E\<close>
  "capital_umlaut_date = ''D'' @ [CHR 0xC3, CHR 0x84] @ ''TE''"

definition small_umlaut_date :: string where \<comment> \<open>d, U+00E4, t, e\<close>
  "small_umlaut_date = ''d'' @ [CHR 0xC3, CHR 0xA4] @ ''te''"

definition utc_host :: host where
  "utc_host =
     \<lparr>numberToString = (\<lambda>q. ''1.5''),
      dateToString = (\<lambda>d. ''Invalid Date''),
      dateParse = (\<lambda>s. if s = ''2023-11-14T22:13:20Z'' then Some 1700000000000 else None),
      localTZA = (\<lambda>t. 0),
      unicodeToLowerCase = (\<lambda>s. if s = capital_umlaut_date then small_umlaut_date else s)\<rparr>"

definition not_found_response :: "unit response" where
  "not_found_response = \<lparr>ok = False, status = 404, json = Inr ()\<rparr>"

definition not_found_client :: "unit client" where
  "not_found_client = \<lparr>token = ''secret'', fetchImpl = (\<lambda>req. Inr not_found_response)\<rparr>"

text \<open>
  An environment with both accesses granted, no variable and no \<^verbatim>\<open>.env\<close> file, and one
  whose file alone holds a token.
\<close>

definition bare_environment :: "unit environment" where
  "bare_environment =
     \<lparr>envAccess = True, envVars = (\<lambda>k. None), readAccess = True, dotenvFile = None,
      fetch = (\<lambda>req. Inr not_found_response)\<rparr>"

definition dotenv_environment :: "unit environment" where
  "dotenv_environment =
     \<lparr>envAccess = True, envVars = (\<lambda>k. None), readAccess = True,
      dotenvFile = Some (\<lambda>k. if k = ''CW_API_TOKEN'' then Some ''from-file'' else None),
      fetch = (\<lambda>req. Inr not_found_response)\<rparr>"

definition ok_response :: "unit response" where
  "ok_response = \<lparr>ok = True, status = 200, json = Inr ()\<rparr>"

definition ok_client :: "unit client" where
  "ok_client = \<lparr>token = ''secret'', fetchImpl = (\<lambda>req. Inr ok_response)\<rparr>"

subsection \<open>What the properties are stated with\<close>

text \<open>
  The fallback chain of the credential resolver as the specification words it: the sources
  are tried in order and the first one that is present and not empty wins.
\<close>

fun spec_resolve_token :: "string option list \<Rightarrow> string option" where
  "spec_resolve_token [] = None"
| "spec_resolve_token (s # rest) =
     (case nonEmpty s of Some t \<Rightarrow> Some t | None \<Rightarrow> spec_resolve_token rest)"



text \<open>The number a string of decimal digits stands for.\<close>

definition dec_value :: "string \<Rightarrow> nat" where
  "dec_value s = foldl (\<lambda>a ch. 10 * a + (of_char ch - 48)) 0 s"


section \<open>Properties\<close>

subsection \<open>Objects, decimal digits and sent fields\<close>

lemma getProp_assign_same: "getProp (assign ob k v) k = v"
  by (simp add: getProp_def assign_def update_conv')

lemma getProp_assign_other: "k \<noteq> k' \<Longrightarrow> getProp (assign ob k' v) k = getProp ob k"
  by (simp add: getProp_def assign_def update_conv')

lemma delete_prop_assign: "delete_prop (assign ob k v) k = delete_prop ob k"
  by (simp add: delete_prop_def assign_def delete_update_same)

lemma getProp_joinIfArray_same:
  "getProp (joinIfArray h ob k) k =
     (case getProp ob k of Arr xs \<Rightarrow> Str (join_comma h xs) | v \<Rightarrow> v)"
  by (cases "getProp ob k") (simp_all add: joinIfArray_def getProp_assign_same)

lemma getProp_joinIfArray_other: "k \<noteq> k' \<Longrightarrow> getProp (joinIfArray h ob k') k = getProp ob k"
  by (cases "getProp ob k'") (simp_all add: joinIfArray_def getProp_assign_other)

lemma joinIfArray_idem: "joinIfArray h (joinIfArray h ob k) k = joinIfArray h ob k"
  by (cases "getProp ob k") (simp_all add: joinIfArray_def getProp_assign_same)

lemma definedParams_assign_Str:
  "(k @ ''='' @ s) \<in> set (definedParams h (assign qp k (Str s)))"
  by (induction qp) (auto simp: assign_def)

lemma map_of_entryValuesAsStrings:
  "map_of (map (entryValuesAsStrings h) ob) k =
     map_option (\<lambda>v. snd (entryValuesAsStrings h (k, v))) (map_of ob k)"
proof (induction ob)
  case Nil
  show ?case by simp
next
  case (Cons e ob)
  obtain key val where e: "e = (key, val)" by (cases e)
  have fst_e: "fst (entryValuesAsStrings h (key, val)) = key"
    by (simp add: entryValuesAsStrings_def)
  show ?case
  proof (cases "key = k")
    case True
    then show ?thesis using e fst_e
      by (cases "entryValuesAsStrings h (key, val)") simp
  next
    case False
    then show ?thesis using e fst_e Cons.IH
      by (cases "entryValuesAsStrings h (key, val)") simp
  qed
qed

lemma map_of_Str: "getProp ob k = Str s \<Longrightarrow> map_of ob k = Some (Str s)"
  by (auto simp: getProp_def split: option.splits)

lemma sentField_send:
  "sentField (send c \<lparr>url = u, http_method = m, headers = hs, body = Some (UrlEncoded ps)\<rparr> l) k
     = map_of ps k"
  by (simp add: sentField_def send_def)

lemma sentField_Str:
  "getProp ob k = Str s \<Longrightarrow>
   sentField (send c \<lparr>url = u, http_method = m, headers = hs,
                       body = Some (UrlEncoded (map (entryValuesAsStrings h) ob))\<rparr> l) k = Some s"
  by (simp add: sentField_send map_of_entryValuesAsStrings map_of_Str entryValuesAsStrings_def)

text \<open>The decimal digits of a number stand for that number.\<close>

lemma of_char_digit: "d < 10 \<Longrightarrow> of_char (digit d) = 48 + d"
proof -
  assume "d < 10"
  then have "d \<in> {0, 1, 2, 3, 4, 5, 6, 7, 8, 9}" by auto
  then show ?thesis by (auto simp: digit_def)
qed

lemma dec_value_snoc: "dec_value (s @ [ch]) = 10 * dec_value s + (of_char ch - 48)"
  by (simp add: dec_value_def)

lemma dec_value_dec_nat: "dec_value (dec_nat n) = n"
proof (induction n rule: dec_nat.induct)
  case (1 n)
  show ?case
  proof (cases "n < 10")
    case True
    then show ?thesis
      by (simp add: dec_nat.simps [of n] dec_value_def of_char_digit)
  next
    case False
    then have "dec_value (dec_nat n) = 10 * dec_value (dec_nat (n div 10)) + n mod 10"
      by (simp add: dec_nat.simps [of n] dec_value_snoc of_char_digit)
    with False "1.IH" show ?thesis by simp
  qed
qed

subsection \<open>The stages of \<^verbatim>\<open>postRoomTasks\<close>\<close>

lemma limitAsDate_absent:
  "\<not> truthy (getProp ob ''limit'') \<Longrightarrow> limitAsDate h ob = Inr ob"
  by (simp add: limitAsDate_def)


lemma limitAsSeconds_keeps:
  assumes "\<not> truthy (getProp ob ''limit'') \<or> isDate (getProp ob ''limit'')" and "k \<noteq> ''limit''"
  shows "\<exists>ob'. limitAsSeconds ob = Inr ob' \<and> getProp ob' k = getProp ob k"
  using assms
  by (cases "getProp ob ''limit''") (auto simp: limitAsSeconds_def getProp_assign_other)

text \<open>The part of the method after the limit type has been validated.\<close>

lemma postRoomTasks_tail:
  assumes "getProp (joinIfArray h ob ''to_ids'') k = Str v" and "k \<noteq> ''limit''"
    and "\<not> truthy (getProp ob ''limit'') \<or> isDate (getProp ob ''limit'')"
  shows "sentField
           (case limitAsSeconds (joinIfArray h ob ''to_ids'') of
              Inl e \<Rightarrow> throw e
            | Inr formData \<Rightarrow>
                send c \<lparr>url = u, http_method = m, headers = hs,
                        body = Some (UrlEncoded (map (entryValuesAsStrings h) formData))\<rparr> None)
           k = Some v"
proof -
  let ?ob = "joinIfArray h ob ''to_ids''"
  have "getProp ?ob ''limit'' = getProp ob ''limit''"
    by (simp add: getProp_joinIfArray_other)
  with assms(3) have "\<not> truthy (getProp ?ob ''limit'') \<or> isDate (getProp ?ob ''limit'')"
    by simp
  then obtain ob' where ob': "limitAsSeconds ?ob = Inr ob'" "getProp ob' k = getProp ?ob k"
    using limitAsSeconds_keeps [of ?ob k] assms(2) by auto
  have "getProp ob' k = Str v"
    using ob'(2) assms(1) by simp
  then show ?thesis
    using ob'(1) by (simp add: sentField_Str)
qed

lemma isValidLimitType_Str:
  "isValidLimitType h (Str t) = (t \<in> {''none'', ''date'', ''time''})"
  by (auto simp: isValidLimitType_def)

lemma limitTypeDefault_none:
  "\<not> truthy (getProp ob ''limit_type'') \<Longrightarrow> \<not> truthy (getProp ob ''limit'') \<Longrightarrow>
   limitTypeDefault h ob = Inr (assign ob ''limit_type'' (Str ''none''))"
  by (simp add: limitTypeDefault_def)



text \<open>The method once the limit is a date or absent and the limit type has been settled.\<close>

lemma postRoomTasks_settled:
  assumes "truthy roomId" and "truthy (getProp ob ''body'')" and "truthy (getProp ob ''to_ids'')"
    and "limitAsDate h ob = Inr ob1"
    and "limitTypeDefault h ob1 = Inr (assign ob1 ''limit_type'' (Str t))"
    and "\<not> truthy (getProp ob1 ''limit'') \<or> isDate (getProp ob1 ''limit'')"
    and "t \<in> {''none'', ''date'', ''time''}"
    and "getProp (joinIfArray h (assign ob1 ''limit_type'' (Str t)) ''to_ids'') k = Str v"
    and "k \<noteq> ''limit''"
  shows "sentField (postRoomTasks h c roomId ob) k = Some v"
proof -
  let ?ob2 = "assign ob1 ''limit_type'' (Str t)"
  have lim: "\<not> truthy (getProp ?ob2 ''limit'') \<or> isDate (getProp ?ob2 ''limit'')"
    using assms(6) by (simp add: getProp_assign_other)
  have "sentField
           (case limitAsSeconds (joinIfArray h ?ob2 ''to_ids'') of
              Inl e \<Rightarrow> throw e
            | Inr formData \<Rightarrow>
                send c \<lparr>url = apiV2Endpoint @ ''/rooms/'' @ ToString h roomId @ ''/tasks'',
                        http_method = Some ''post'', headers = FormDataHeaders c,
                        body = Some (UrlEncoded (map (entryValuesAsStrings h) formData))\<rparr> None)
           k = Some v"
    by (rule postRoomTasks_tail [OF assms(8) assms(9) lim])
  then show ?thesis
    using assms(1-5) assms(7)
    by (simp add: postRoomTasks_def getProp_assign_same isValidLimitType_Str)
qed


subsection \<open>The error classifier\<close>

text \<open>
  C5: the classifier is a function of the status code and the optional resource type, defined
  on every pair. The five status codes 400, 401, 403, 404 and 429 give the kinds
  IncorrectParameters, Unauthorized, Forbidden, NotFound and RateLimit; the message of
  NotFound starts with the resource type that was passed, or with the default one when none
  was; every other status code gives the unknown error, whose name ends with the decimal
  digits of that status code.
\<close>

theorem ChatworkError_classification:
  "ChatworkError 400 r = Chatwork ''IncorrectParametersError'' msg_400
   \<and> ChatworkError 401 r = Chatwork ''UnauthorizedError'' msg_401
   \<and> ChatworkError 403 r = Chatwork ''ForbiddenError'' msg_403
   \<and> ChatworkError 404 (Some l) = Chatwork ''NotFoundError'' (l @ msg_404_suffix)
   \<and> ChatworkError 404 None = Chatwork ''NotFoundError'' (label_resource @ msg_404_suffix)
   \<and> ChatworkError 429 r = Chatwork ''RateLimitError'' msg_429
   \<and> (s \<notin> {400, 401, 403, 404, 429} \<longrightarrow>
        ChatworkError s r = Chatwork (''UnknownChatworkError '' @ dec_nat s) msg_unknown
        \<and> dec_value (dec_nat s) = s)"
  by (simp add: ChatworkError_def dec_value_dec_nat)

theorem ChatworkError_classification_witness:
  "(500::nat) \<notin> {400, 401, 403, 404, 429}
   \<and> ChatworkError 500 None = Chatwork ''UnknownChatworkError 500'' msg_unknown"
  using ChatworkError_classification [where s = 500 and r = None]
  by (simp add: dec_nat.simps digit_def)

subsection \<open>Construction of the client\<close>

text \<open>
  C7: \<^verbatim>\<open>create\<close> never calls the transport. When the runtime grants the two accesses,
  the token is the first non-empty one of the explicit argument, the environment variable
  \<^verbatim>\<open>CW_API_TOKEN\<close> and the entry of that name in the \<^verbatim>\<open>.env\<close> file, in this order, and
  construction throws the error about the missing token when none of them is non-empty; in
  particular it throws with no token argument, the variable unset and no \<^verbatim>\<open>.env\<close> file.
\<close>

theorem create_resolves_token:
  "fst (create env opts) = []
   \<and> (envAccess env \<and> readAccess env \<longrightarrow>
        snd (create env opts) =
          (case spec_resolve_token
                  [case opts of None \<Rightarrow> None | Some given \<Rightarrow> options_token given,
                   envVars env ''CW_API_TOKEN'', loadSync env ''CW_API_TOKEN''] of
             None \<Rightarrow> Inl (PlainError msg_no_token)
           | Some t \<Rightarrow>
               Inr \<lparr>token = t,
                    fetchImpl = (case opts of None \<Rightarrow> fetch env
                                 | Some given \<Rightarrow> options_fetchImpl given)\<rparr>))
   \<and> (envAccess env \<and> readAccess env
        \<and> (case opts of None \<Rightarrow> True | Some given \<Rightarrow> options_token given = None)
        \<and> envVars env ''CW_API_TOKEN'' = None \<and> dotenvFile env = None \<longrightarrow>
        create env opts = ([], Inl (PlainError msg_no_token)))"
  by (auto simp: create_def throw_def Let_def nonEmpty_def loadSync_def
      split: option.splits list.splits)

theorem create_resolves_token_witness:
  "envAccess bare_environment \<and> readAccess bare_environment
   \<and> envVars bare_environment ''CW_API_TOKEN'' = None \<and> dotenvFile bare_environment = None
   \<and> create bare_environment None = ([], Inl (PlainError msg_no_token))
   \<and> envAccess dotenv_environment \<and> readAccess dotenv_environment
   \<and> snd (create dotenv_environment None)
       = Inr \<lparr>token = ''from-file'', fetchImpl = fetch dotenv_environment\<rparr>"
  using create_resolves_token [where env = bare_environment and opts = None]
    create_resolves_token [where env = dotenv_environment and opts = None]
  by (simp add: bare_environment_def dotenv_environment_def loadSync_def nonEmpty_def)

subsection \<open>Required fields\<close>

text \<open>
  C4: \<^verbatim>\<open>putRoomMessagesRead\<close> with an empty \<^verbatim>\<open>message_id\<close> calls the transport
  once and throws no MissingParameter error, while \<^verbatim>\<open>putRoomMessagesUnread\<close> on the same
  input throws it for \<^verbatim>\<open>formData.message_id\<close> and sends nothing.
\<close>

theorem putRoomMessagesRead_empty_message_id:
  "putRoomMessagesRead h c (Num (Fin 1)) [(''message_id'', Str [])] =
     send c \<lparr>url = ''https://api.chatwork.com/v2/rooms/1/messages/read'',
              http_method = Some ''put'', headers = FormDataHeaders c,
              body = Some (UrlEncoded [(''message_id'', [])])\<rparr>
       (Some label_message)
   \<and> length (fst (putRoomMessagesRead h c (Num (Fin 1)) [(''message_id'', Str [])])) = 1
   \<and> putRoomMessagesUnread h c (Num (Fin 1)) [(''message_id'', Str [])] =
       ([], Inl (MissingParameterError ''formData.message_id''))"
  by (simp add: putRoomMessagesRead_def putRoomMessagesUnread_def getProp_def send_def throw_def
      entryValuesAsStrings_def apiV2Endpoint_def Number_toString_def dec_int_def dec_nat.simps
      digit_def Let_def)

subsection \<open>Posting a message\<close>

text \<open>
  C3, as the code has it: for a room id that is not falsy, \<^verbatim>\<open>postRoomMessage\<close> with the
  body \<^verbatim>\<open>hi\<close> and \<^verbatim>\<open>self_unread\<close> true issues exactly one request, a POST to the
  messages path of the room whose form is written \<^verbatim>\<open>body=hi&self_unread=1\<close>; when the
  transport answers with a response that is not ok and has status 404, the error is NotFound
  and its message names the default resource type, since the method passes no resource type
  to the classifier.
\<close>

theorem postRoomMessage_hi:
  assumes "truthy roomId"
  shows "fst (postRoomMessage h c roomId [(''body'', Str ''hi''), (''self_unread'', Bool True)]) =
           [\<lparr>url = apiV2Endpoint @ ''/rooms/'' @ ToString h roomId @ ''/messages'',
             http_method = Some ''post'', headers = FormDataHeaders c,
             body = Some (UrlEncoded [(''body'', ''hi''), (''self_unread'', ''1'')])\<rparr>]
         \<and> URLSearchParams_toString [(''body'', ''hi''), (''self_unread'', ''1'')]
             = ''body=hi&self_unread=1''
         \<and> (fetchImpl c \<lparr>url = apiV2Endpoint @ ''/rooms/'' @ ToString h roomId @ ''/messages'',
               http_method = Some ''post'', headers = FormDataHeaders c,
               body = Some (UrlEncoded [(''body'', ''hi''), (''self_unread'', ''1'')])\<rparr> = Inr res
             \<and> \<not> ok res \<and> status res = 404 \<longrightarrow>
             snd (postRoomMessage h c roomId [(''body'', Str ''hi''), (''self_unread'', Bool True)])
               = Inl (Chatwork ''NotFoundError'' (label_resource @ msg_404_suffix)))"
  using assms
  by (simp add: postRoomMessage_def getProp_def assign_def send_def entryValuesAsStrings_def
      URLSearchParams_toString_def formEncode_def formByte_def ChatworkError_def Let_def)

theorem postRoomMessage_hi_witness:
  "truthy (Num (Fin 42))
   \<and> fst (postRoomMessage utc_host not_found_client (Num (Fin 42))
          [(''body'', Str ''hi''), (''self_unread'', Bool True)]) =
       [\<lparr>url = ''https://api.chatwork.com/v2/rooms/42/messages'',
         http_method = Some ''post'',
         headers = [(''accept'', ''application/json''), (''x-chatworktoken'', ''secret''),
                    (''content-type'', ''application/x-www-form-urlencoded'')],
         body = Some (UrlEncoded [(''body'', ''hi''), (''self_unread'', ''1'')])\<rparr>]
   \<and> snd (postRoomMessage utc_host not_found_client (Num (Fin 42))
          [(''body'', Str ''hi''), (''self_unread'', Bool True)])
       = Inl (Chatwork ''NotFoundError'' (label_resource @ msg_404_suffix))"
  using postRoomMessage_hi [where roomId = "Num (Fin 42)" and h = utc_host
      and c = not_found_client and res = not_found_response]
  by (simp add: not_found_client_def not_found_response_def apiV2Endpoint_def
      FormDataHeaders_def DefaultHeaders_def Number_toString_def dec_int_def dec_nat.simps
      digit_def)

text \<open>
  Against C3 as it is worded: with a transport that answers 404, the error is the one the
  classifier gives without a resource type, and it is not the one it gives for the resource
  type of a message.
\<close>

theorem postRoomMessage_404_label_counterexample:
  "snd (postRoomMessage utc_host not_found_client (Num (Fin 42))
          [(''body'', Str ''hi''), (''self_unread'', Bool True)])
     = Inl (ChatworkError 404 None)
   \<and> snd (postRoomMessage utc_host not_found_client (Num (Fin 42))
          [(''body'', Str ''hi''), (''self_unread'', Bool True)])
     \<noteq> Inl (ChatworkError 404 (Some label_message))"
  by (simp add: postRoomMessage_def getProp_def assign_def send_def not_found_client_def
      not_found_response_def ChatworkError_def label_message_def label_resource_def Let_def)

subsection \<open>The force key of the message list\<close>

text \<open>
  C10: for a room id that is not falsy, the request of \<^verbatim>\<open>getRoomMessages\<close> always has a
  query string with the key \<^verbatim>\<open>force\<close>, whose value is 1 when the caller's value is
  truthy and 0 otherwise. With a falsy \<^verbatim>\<open>force\<close> as the only key, or with no key at all,
  the URL ends with \<^verbatim>\<open>?force=0\<close>, although the query-string builder alone leaves out
  a key whose value is \<^verbatim>\<open>undefined\<close>.
\<close>

theorem getRoomMessages_force_key:
  assumes "truthy roomId"
  shows "(\<not> truthy v \<longrightarrow>
            getRoomMessages h c roomId [(''force'', v)] =
              send c \<lparr>url = apiV2Endpoint @ ''/rooms/'' @ ToString h roomId @ ''/messages?force=0'',
                       http_method = None, headers = DefaultHeaders c, body = None\<rparr> None)
         \<and> getRoomMessages h c roomId [] =
              send c \<lparr>url = apiV2Endpoint @ ''/rooms/'' @ ToString h roomId @ ''/messages?force=0'',
                       http_method = None, headers = DefaultHeaders c, body = None\<rparr> None
         \<and> (truthy v \<longrightarrow>
            getRoomMessages h c roomId [(''force'', v)] =
              send c \<lparr>url = apiV2Endpoint @ ''/rooms/'' @ ToString h roomId @ ''/messages?force=1'',
                       http_method = None, headers = DefaultHeaders c, body = None\<rparr> None)
         \<and> (\<exists>ps. fst (getRoomMessages h c roomId queryParams) =
                    [\<lparr>url = apiV2Endpoint @ ''/rooms/'' @ ToString h roomId @ ''/messages?''
                              @ intercalate ''&'' ps,
                      http_method = None, headers = DefaultHeaders c, body = None\<rparr>]
                  \<and> (''force='' @ (if truthy (getProp queryParams ''force'') then ''1'' else ''0''))
                      \<in> set ps)
         \<and> queryStringFromParamsObject h (Some [(''force'', Undefined)]) = []"
proof -
  let ?b = "if truthy (getProp queryParams ''force'') then ''1'' else ''0''"
  let ?ps = "definedParams h (assign queryParams ''force'' (Str ?b))"
  have mem: "(''force='' @ ?b) \<in> set ?ps"
    using definedParams_assign_Str [of "''force''" ?b h queryParams] by simp
  then have ne: "length ?ps > 0" by (cases ?ps) auto
  have "fst (getRoomMessages h c roomId queryParams) =
          [\<lparr>url = apiV2Endpoint @ ''/rooms/'' @ ToString h roomId @ ''/messages?''
                    @ intercalate ''&'' ?ps,
            http_method = None, headers = DefaultHeaders c, body = None\<rparr>]"
    using assms ne
    by (simp add: getRoomMessages_def Let_def queryStringFromParamsObject_def send_def)
  with mem have ex: "\<exists>ps. fst (getRoomMessages h c roomId queryParams) =
                    [\<lparr>url = apiV2Endpoint @ ''/rooms/'' @ ToString h roomId @ ''/messages?''
                              @ intercalate ''&'' ps,
                      http_method = None, headers = DefaultHeaders c, body = None\<rparr>]
                  \<and> (''force='' @ ?b) \<in> set ps"
    by blast
  have rest: "(\<not> truthy v \<longrightarrow>
            getRoomMessages h c roomId [(''force'', v)] =
              send c \<lparr>url = apiV2Endpoint @ ''/rooms/'' @ ToString h roomId @ ''/messages?force=0'',
                       http_method = None, headers = DefaultHeaders c, body = None\<rparr> None)
         \<and> getRoomMessages h c roomId [] =
              send c \<lparr>url = apiV2Endpoint @ ''/rooms/'' @ ToString h roomId @ ''/messages?force=0'',
                       http_method = None, headers = DefaultHeaders c, body = None\<rparr> None
         \<and> (truthy v \<longrightarrow>
            getRoomMessages h c roomId [(''force'', v)] =
              send c \<lparr>url = apiV2Endpoint @ ''/rooms/'' @ ToString h roomId @ ''/messages?force=1'',
                       http_method = None, headers = DefaultHeaders c, body = None\<rparr> None)
         \<and> queryStringFromParamsObject h (Some [(''force'', Undefined)]) = []"
    using assms
    by (simp add: getRoomMessages_def Let_def queryStringFromParamsObject_def getProp_def
        assign_def)
  from ex rest show ?thesis by blast
qed

theorem getRoomMessages_force_key_witness:
  "truthy (Num (Fin 42)) \<and> \<not> truthy (Bool False) \<and> truthy (Bool True)
   \<and> fst (getRoomMessages utc_host not_found_client (Num (Fin 42)) [(''force'', Bool False)]) =
       [\<lparr>url = ''https://api.chatwork.com/v2/rooms/42/messages?force=0'',
         http_method = None, headers = DefaultHeaders not_found_client, body = None\<rparr>]
   \<and> fst (getRoomMessages utc_host not_found_client (Num (Fin 42)) [(''force'', Bool True)]) =
       [\<lparr>url = ''https://api.chatwork.com/v2/rooms/42/messages?force=1'',
         http_method = None, headers = DefaultHeaders not_found_client, body = None\<rparr>]"
  using getRoomMessages_force_key [where roomId = "Num (Fin 42)" and h = utc_host
      and c = not_found_client and v = "Bool False" and queryParams = "[]"]
    getRoomMessages_force_key [where roomId = "Num (Fin 42)" and h = utc_host
      and c = not_found_client and v = "Bool True" and queryParams = "[]"]
  by (simp add: send_def apiV2Endpoint_def Number_toString_def dec_int_def dec_nat.simps digit_def)

subsection \<open>The status filter of the task list\<close>

lemma trim_DONE: "toLowerCase h (trim '' DONE '') = ''done''"
  by (simp add: trim_def dropLeading.simps leading_def whiteSpace_def toLowerCase_def
      lowerChar_def)

lemma trim_bogus: "toLowerCase h (trim ''bogus'') = ''bogus''"
  by (simp add: trim_def dropLeading.simps leading_def whiteSpace_def toLowerCase_def
      lowerChar_def)

lemma trim_ideographic_Done: "toLowerCase h (trim ideographic_Done) = ''done''"
  by (simp add: ideographic_Done_def trim_def dropLeading.simps leading_def whiteSpace_def
      toLowerCase_def lowerChar_def)

text \<open>
  C8: for a room id that is not falsy, \<^verbatim>\<open>getRoomTasks\<close> trims (of all white space,
  also outside ASCII) and lower-cases a status that is a string. The status \<^verbatim>\<open>" DONE "\<close> is sent as \<^verbatim>\<open>status=done\<close>; the status
  \<^verbatim>\<open>"bogus"\<close> is dropped, the request goes out without a query string and the method
  returns what an ok response holds; in general the normalised status is sent when it is
  \<^verbatim>\<open>open\<close> or \<^verbatim>\<open>done\<close> and the key is deleted otherwise, and no error is thrown before
  the request.
\<close>

theorem getRoomTasks_status_filter:
  assumes "truthy roomId"
  shows "getRoomTasks h c roomId [(''status'', Str '' DONE '')] =
           send c \<lparr>url = apiV2Endpoint @ ''/rooms/'' @ ToString h roomId @ ''/tasks?status=done'',
                    http_method = None, headers = DefaultHeaders c, body = None\<rparr> None
         \<and> getRoomTasks h c roomId [(''status'', Str ''bogus'')] =
           send c \<lparr>url = apiV2Endpoint @ ''/rooms/'' @ ToString h roomId @ ''/tasks'',
                    http_method = None, headers = DefaultHeaders c, body = None\<rparr> None
         \<and> (fetchImpl c \<lparr>url = apiV2Endpoint @ ''/rooms/'' @ ToString h roomId @ ''/tasks'',
                          http_method = None, headers = DefaultHeaders c, body = None\<rparr> = Inr res
             \<and> ok res \<longrightarrow>
             snd (getRoomTasks h c roomId [(''status'', Str ''bogus'')]) = json res)
         \<and> (getProp queryParams ''status'' = Str s \<longrightarrow>
             getRoomTasks h c roomId queryParams =
               send c \<lparr>url = apiV2Endpoint @ ''/rooms/'' @ ToString h roomId @ ''/tasks''
                          @ queryStringFromParamsObject h
                              (Some (if toLowerCase h (trim s) \<in> {''open'', ''done''}
                                     then assign queryParams ''status'' (Str (toLowerCase h (trim s)))
                                     else delete_prop queryParams ''status'')),
                        http_method = None, headers = DefaultHeaders c, body = None\<rparr> None)"
proof -
  have general: "getRoomTasks h c roomId qp =
      send c \<lparr>url = apiV2Endpoint @ ''/rooms/'' @ ToString h roomId @ ''/tasks''
                 @ queryStringFromParamsObject h
                     (Some (if toLowerCase h (trim t) \<in> {''open'', ''done''}
                            then assign qp ''status'' (Str (toLowerCase h (trim t)))
                            else delete_prop qp ''status'')),
               http_method = None, headers = DefaultHeaders c, body = None\<rparr> None"
    if "getProp qp ''status'' = Str t" for qp t
    using assms that
    by (auto simp: getRoomTasks_def trim_toLowerCase_def Let_def getProp_assign_same
        isValidTaskStatus_def delete_prop_assign)
  have st_done: "getRoomTasks h c roomId [(''status'', Str '' DONE '')] =
           send c \<lparr>url = apiV2Endpoint @ ''/rooms/'' @ ToString h roomId @ ''/tasks?status=done'',
                    http_method = None, headers = DefaultHeaders c, body = None\<rparr> None"
    using general [of "[(''status'', Str '' DONE '')]" "'' DONE ''"]
    by (simp add: getProp_def trim_DONE assign_def queryStringFromParamsObject_def)
  have st_bogus: "getRoomTasks h c roomId [(''status'', Str ''bogus'')] =
           send c \<lparr>url = apiV2Endpoint @ ''/rooms/'' @ ToString h roomId @ ''/tasks'',
                    http_method = None, headers = DefaultHeaders c, body = None\<rparr> None"
    using general [of "[(''status'', Str ''bogus'')]" "''bogus''"]
    by (simp add: getProp_def trim_bogus delete_prop_def queryStringFromParamsObject_def)
  show ?thesis
    using general [of queryParams s] st_done st_bogus by (simp add: send_def)
qed

theorem getRoomTasks_status_filter_witness:
  "truthy (Num (Fin 42))
   \<and> fst (getRoomTasks utc_host ok_client (Num (Fin 42)) [(''status'', Str '' DONE '')]) =
       [\<lparr>url = ''https://api.chatwork.com/v2/rooms/42/tasks?status=done'',
         http_method = None, headers = DefaultHeaders ok_client, body = None\<rparr>]
   \<and> getRoomTasks utc_host ok_client (Num (Fin 42)) [(''status'', Str ''bogus'')] =
       ([\<lparr>url = ''https://api.chatwork.com/v2/rooms/42/tasks'',
          http_method = None, headers = DefaultHeaders ok_client, body = None\<rparr>], Inr ())
   \<and> fst (getRoomTasks utc_host ok_client (Num (Fin 42)) [(''status'', Str ideographic_Done)]) =
       [\<lparr>url = ''https://api.chatwork.com/v2/rooms/42/tasks?status=done'',
         http_method = None, headers = DefaultHeaders ok_client, body = None\<rparr>]"
  using getRoomTasks_status_filter [where roomId = "Num (Fin 42)" and h = utc_host
      and c = ok_client and queryParams = "[(''status'', Str ''bogus'')]" and s = "''bogus''"
      and res = ok_response]
    getRoomTasks_status_filter [where roomId = "Num (Fin 42)" and h = utc_host
      and c = ok_client
      and queryParams = "[(''status'', Str ideographic_Done)]" and s = ideographic_Done]
    trim_ideographic_Done [of utc_host]
  by (simp add: send_def apiV2Endpoint_def Number_toString_def dec_int_def dec_nat.simps digit_def
      ok_client_def ok_response_def DefaultHeaders_def getProp_def assign_def
      queryStringFromParamsObject_def)

subsection \<open>List-valued fields\<close>

text \<open>
  C9: an array in a list-valued field is replaced by its elements joined with commas in their
  order (an array of strings gives exactly those strings with commas between them), and this is
  what \<^verbatim>\<open>postRooms\<close> and \<^verbatim>\<open>putRoomMembers\<close> send for the administrators and what
  \<^verbatim>\<open>postRoomTasks\<close>, called without a limit and a limit type, sends for the assignees. A field
  that already is a string is left as it is, so the step applied twice is the step applied
  once, and the form entry of the joined string is the form entry of the array.
\<close>

theorem list_fields_comma_joined:
  "join_comma h (map Str ss) = intercalate '','' ss
   \<and> (getProp formData k = Arr xs \<longrightarrow>
        getProp (joinIfArray h formData k) k = Str (join_comma h xs))
   \<and> (getProp formData k = Str s \<longrightarrow> joinIfArray h formData k = formData)
   \<and> joinIfArray h (joinIfArray h formData k) k = joinIfArray h formData k
   \<and> entryValuesAsStrings h (k, Arr xs) = (k, join_comma h xs)
   \<and> entryValuesAsStrings h (k, Str s) = (k, s)
   \<and> entryValuesAsStrings h (k, Str (join_comma h xs)) = entryValuesAsStrings h (k, Arr xs)
   \<and> (truthy (getProp formData ''name'') \<and> getProp formData ''members_admin_ids'' = Arr xs \<longrightarrow>
        sentField (postRooms h c formData) ''members_admin_ids'' = Some (join_comma h xs))
   \<and> (truthy roomId \<and> getProp formData ''members_admin_ids'' = Arr xs \<longrightarrow>
        sentField (putRoomMembers h c roomId formData) ''members_admin_ids''
          = Some (join_comma h xs))
   \<and> (truthy roomId \<and> truthy (getProp formData ''body'')
        \<and> getProp formData ''to_ids'' = Arr xs
        \<and> \<not> truthy (getProp formData ''limit'') \<and> \<not> truthy (getProp formData ''limit_type'') \<longrightarrow>
        sentField (postRoomTasks h c roomId formData) ''to_ids'' = Some (join_comma h xs))"
proof -
  have tasks: "sentField (postRoomTasks h c roomId formData) ''to_ids'' = Some (join_comma h xs)"
    if "truthy roomId" "truthy (getProp formData ''body'')"
      "getProp formData ''to_ids'' = Arr xs"
      "\<not> truthy (getProp formData ''limit'')" "\<not> truthy (getProp formData ''limit_type'')"
  proof -
    have ids: "truthy (getProp formData ''to_ids'')"
      using that(3) by simp
    have d: "limitAsDate h formData = Inr formData"
      using that(4) by (rule limitAsDate_absent)
    have lt: "limitTypeDefault h formData = Inr (assign formData ''limit_type'' (Str ''none''))"
      using that(5) that(4) by (rule limitTypeDefault_none)
    have lim: "\<not> truthy (getProp formData ''limit'') \<or> isDate (getProp formData ''limit'')"
      using that(4) by simp
    have joined: "getProp (joinIfArray h (assign formData ''limit_type'' (Str ''none'')) ''to_ids'')
                    ''to_ids'' = Str (join_comma h xs)"
      using that(3) by (simp add: getProp_joinIfArray_same getProp_assign_other)
    show ?thesis
      by (rule postRoomTasks_settled [OF that(1) that(2) ids d lt lim _ joined]) simp_all
  qed
  have strs: "join_comma h (map Str ss) = intercalate '','' ss"
    by (simp add: join_comma_def comp_def)
  have admin: "getProp (joinIfArray h (joinIfArray h (joinIfArray h formData ''members_admin_ids'')
                  ''members_member_ids'') ''members_readonly_ids'') ''members_admin_ids''
               = Str (join_comma h xs)"
    if "getProp formData ''members_admin_ids'' = Arr xs"
    using that by (simp add: getProp_joinIfArray_other getProp_joinIfArray_same)
  have rooms: "sentField (postRooms h c formData) ''members_admin_ids'' = Some (join_comma h xs)"
    if "truthy (getProp formData ''name'')" "getProp formData ''members_admin_ids'' = Arr xs"
    using that admin by (simp add: postRooms_def Let_def sentField_Str)
  have members: "sentField (putRoomMembers h c roomId formData) ''members_admin_ids''
                   = Some (join_comma h xs)"
    if "truthy roomId" "getProp formData ''members_admin_ids'' = Arr xs"
    using that admin by (simp add: putRoomMembers_def Let_def sentField_Str)
  have joined: "getProp (joinIfArray h formData k) k = Str (join_comma h xs)"
    if "getProp formData k = Arr xs"
    using that by (simp add: getProp_joinIfArray_same)
  have kept: "joinIfArray h formData k = formData" if "getProp formData k = Str s"
    using that by (simp add: joinIfArray_def)
  have entries: "entryValuesAsStrings h (k, Arr xs) = (k, join_comma h xs)
      \<and> entryValuesAsStrings h (k, Str s) = (k, s)
      \<and> entryValuesAsStrings h (k, Str (join_comma h xs)) = entryValuesAsStrings h (k, Arr xs)"
    by (simp add: entryValuesAsStrings_def)
  show ?thesis
    using strs joined kept entries rooms members tasks joinIfArray_idem [of h formData k]
    by blast
qed

theorem list_fields_comma_joined_witness:
  "getProp [(''name'', Str ''room''),
            (''members_admin_ids'', Arr [Num (Fin 1), Str ''2'', Num (Fin 30)])]
     ''members_admin_ids'' = Arr [Num (Fin 1), Str ''2'', Num (Fin 30)]
   \<and> sentField (postRooms utc_host not_found_client
        [(''name'', Str ''room''),
         (''members_admin_ids'', Arr [Num (Fin 1), Str ''2'', Num (Fin 30)])])
        ''members_admin_ids'' = Some ''1,2,30''
   \<and> sentField (putRoomMembers utc_host not_found_client (Num (Fin 42))
        [(''name'', Str ''room''),
         (''members_admin_ids'', Arr [Num (Fin 1), Str ''2'', Num (Fin 30)])])
        ''members_admin_ids'' = Some ''1,2,30''
   \<and> sentField (postRoomTasks utc_host not_found_client (Num (Fin 42))
        [(''body'', Str ''x''), (''to_ids'', Arr [Num (Fin 1), Str ''2'', Num (Fin 30)])])
        ''to_ids'' = Some ''1,2,30''
   \<and> joinIfArray utc_host [(''members_admin_ids'', Str ''1,2,30'')] ''members_admin_ids''
       = [(''members_admin_ids'', Str ''1,2,30'')]"
  using list_fields_comma_joined [where h = utc_host and c = not_found_client
      and xs = "[Num (Fin 1), Str ''2'', Num (Fin 30)]" and roomId = "Num (Fin 42)"
      and formData = "[(''body'', Str ''x''),
                       (''to_ids'', Arr [Num (Fin 1), Str ''2'', Num (Fin 30)])]"]
    list_fields_comma_joined [where h = utc_host and c = not_found_client
      and k = "''members_admin_ids''" and xs = "[Num (Fin 1), Str ''2'', Num (Fin 30)]"
      and roomId = "Num (Fin 42)"
      and formData = "[(''name'', Str ''room''),
                       (''members_admin_ids'', Arr [Num (Fin 1), Str ''2'', Num (Fin 30)])]"]
    list_fields_comma_joined [where h = utc_host and k = "''members_admin_ids''"
      and s = "''1,2,30''" and formData = "[(''members_admin_ids'', Str ''1,2,30'')]"]
  by (simp add: getProp_def join_comma_def Number_toString_def dec_int_def dec_nat.simps digit_def)

subsection \<open>The limit of a task\<close>

text \<open>
  C1: a numeric limit goes through \<^verbatim>\<open>new Date(limit)\<close>, which reads a number as
  milliseconds, and comes back divided by 1000. The limit 1700000000, meant as seconds, is
  sent as 1700000 and not as 1700000000.
\<close>

theorem postRoomTasks_numeric_limit_is_milliseconds:
  "sentField (postRoomTasks h c (Num (Fin 1))
      [(''body'', Str ''x''), (''to_ids'', Str ''1''), (''limit'', Num (Fin 1700000000))]) ''limit''
   = Some ''1700000''"
  by (simp add: sentField_def postRoomTasks_def getProp_def limitAsDate_def Date_of_number_def
      TimeClip_def assign_def limitTypeDefault_def getSeconds_def getMinutes_def getHours_def
      isValidLimitType_def joinIfArray_def limitAsSeconds_def epochSeconds_def send_def
      entryValuesAsStrings_def dec_int_def dec_nat.simps digit_def LocalTime_def)

subsection \<open>The limit type of a task\<close>




subsection \<open>The headers of a file upload\<close>

text \<open>
  C2: the request of \<^verbatim>\<open>postRoomFiles\<close> has a multipart body and carries the headers of
  the url-encoded forms, with their content type.
\<close>

theorem postRoomFiles_sends_form_content_type:
  "fst (postRoomFiles h c (Num (Fin 1)) [(''file'', BlobV ''abc''), (''message'', Str ''m'')]) =
     [\<lparr>url = ''https://api.chatwork.com/v2/rooms/1/files'', http_method = Some ''post'',
       headers = [(''accept'', ''application/json''), (''x-chatworktoken'', token c),
                  (''content-type'', ''application/x-www-form-urlencoded'')],
       body = Some (Multipart [(''message'', FieldString ''m''), (''file'', FieldBlob ''abc'')])\<rparr>]"
  by (simp add: postRoomFiles_def getProp_def send_def FormDataHeaders_def DefaultHeaders_def
      apiV2Endpoint_def Number_toString_def dec_int_def dec_nat.simps digit_def Let_def)

end
